theory Spec2Isabelle
  imports Complex_Main "HOL-Library.Sublist"
begin

section \<open>Data model\<close>

text \<open>
  Python \<open>str\<close> values whose characters matter (message text, packet queries) are lists
  of Unicode code points, so that \<open>length\<close> is Python's \<open>len\<close>. Roles, ids and
  dictionary keys are only compared for equality and emptiness; they are plain strings.
\<close>

type_synonym ustr = "nat list"

definition ascii :: "string \<Rightarrow> ustr" where
  "ascii s = map of_char s"

text \<open>
  A content segment is a \<open>Dict[str, Any]\<close>. The code reads the keys \<open>type\<close> and
  \<open>text\<close> only; both are strings when present, and every other key is carried in
  \<open>seg_extra\<close>.
\<close>

record segment =
  seg_type :: "string option"
  seg_text :: "ustr option"
  seg_extra :: "(string \<times> string) list"

datatype msg_content = CNone | CStr ustr | CList "segment list"

text \<open>
  A tool call is a \<open>Dict[str, Any]\<close> with the keys \<open>id\<close>, \<open>type\<close> and
  \<open>function\<close> (name and JSON argument string); a key that is absent or null is
  \<open>None\<close>.
\<close>

record tool_call =
  tc_id :: "string option"
  tc_type :: "string option"
  tc_function :: "(string \<times> ustr) option"

text \<open>\<open>models.py\<close>, class \<open>ChatMessage\<close>.\<close>

record chat_message =
  role :: string
  content :: msg_content
  tool_call_id :: "string option"
  tool_calls :: "tool_call list option"
  name :: "string option"

text \<open>The constructor calls of the source: unnamed fields take their defaults.\<close>

definition ChatMessage :: "string \<Rightarrow> msg_content \<Rightarrow> chat_message" where
  "ChatMessage r c =
     \<lparr>role = r, content = c, tool_call_id = None, tool_calls = None, name = None\<rparr>"

definition ChatMessage_tc :: "string \<Rightarrow> msg_content \<Rightarrow> tool_call list option \<Rightarrow> chat_message" where
  "ChatMessage_tc r c tcs =
     \<lparr>role = r, content = c, tool_call_id = None, tool_calls = tcs, name = None\<rparr>"

definition ChatMessage_tool :: "string \<Rightarrow> msg_content \<Rightarrow> string option \<Rightarrow> chat_message" where
  "ChatMessage_tool r c tid =
     \<lparr>role = r, content = c, tool_call_id = tid, tool_calls = None, name = None\<rparr>"

subsection \<open>Python truthiness\<close>

definition truthy_id :: "string option \<Rightarrow> bool" where
  "truthy_id x = (case x of None \<Rightarrow> False | Some s \<Rightarrow> s \<noteq> [])"

definition tcs_of :: "chat_message \<Rightarrow> tool_call list" where
  "tcs_of m = (case tool_calls m of None \<Rightarrow> [] | Some l \<Rightarrow> l)"

definition has_tool_calls :: "chat_message \<Rightarrow> bool" where
  "has_tool_calls m = (tcs_of m \<noteq> [])"

definition tc_nonempty :: "tool_call \<Rightarrow> bool" where
  "tc_nonempty tc = (tc_id tc \<noteq> None \<or> tc_type tc \<noteq> None \<or> tc_function tc \<noteq> None)"

definition content_truthy :: "msg_content \<Rightarrow> bool" where
  "content_truthy c = (case c of CNone \<Rightarrow> False | CStr s \<Rightarrow> s \<noteq> [] | CList l \<Rightarrow> l \<noteq> [])"

text \<open>The characters that \<open>str.strip()\<close> and the regular expression \<open>\s\<close> remove.\<close>

definition py_isspace :: "nat \<Rightarrow> bool" where
  "py_isspace c = (c \<in> set [9, 10, 11, 12, 13, 28, 29, 30, 31, 32, 133, 160, 5760,
                             8232, 8233, 8239, 8287, 12288] \<or> (8192 \<le> c \<and> c \<le> 8202))"

text \<open>
  \<open>not msg.content or (isinstance(msg.content, str) and not msg.content.strip())\<close>
\<close>

definition content_blank :: "msg_content \<Rightarrow> bool" where
  "content_blank c = (case c of CNone \<Rightarrow> True | CStr s \<Rightarrow> list_all py_isspace s
                      | CList l \<Rightarrow> l = [])"

section \<open>\<open>helpers.py\<close>\<close>

definition text_segment :: "ustr \<Rightarrow> segment" where
  "text_segment t = \<lparr>seg_type = Some ''text'', seg_text = Some t, seg_extra = []\<rparr>"

definition normalize_item :: "segment \<Rightarrow> segment list" where
  "normalize_item item =
     (let t = (if truthy_id (seg_type item) then seg_type item
               else if seg_text item \<noteq> None then Some ''text'' else None)
      in if t = Some ''text'' \<and> seg_text item \<noteq> None
         then [\<lparr>seg_type = Some ''text'', seg_text = seg_text item, seg_extra = []\<rparr>]
         else if truthy_id t \<or> seg_text item \<noteq> None
              then [\<lparr>seg_type = (if truthy_id t then t else None),
                     seg_text = seg_text item, seg_extra = []\<rparr>]
              else [])"

definition normalize_content_to_list :: "msg_content \<Rightarrow> segment list" where
  "normalize_content_to_list c =
     (case c of CStr s \<Rightarrow> [text_segment s]
              | CList items \<Rightarrow> concat (map normalize_item items)
              | CNone \<Rightarrow> [])"

definition is_text_segment :: "segment \<Rightarrow> bool" where
  "is_text_segment seg = (seg_type seg = Some ''text'' \<and> seg_text seg \<noteq> None)"

definition segments_to_text :: "segment list \<Rightarrow> ustr" where
  "segments_to_text segs = concat (map (\<lambda>seg. the (seg_text seg)) (filter is_text_segment segs))"

section \<open>\<open>reorder.py\<close>: \<open>reorder_messages_for_anthropic\<close>\<close>

definition is_list_content :: "msg_content \<Rightarrow> bool" where
  "is_list_content c = (case c of CList _ \<Rightarrow> True | _ \<Rightarrow> False)"

definition expand_message :: "chat_message \<Rightarrow> chat_message list" where
  "expand_message m =
     (if role m = ''user'' then
        (let items = normalize_content_to_list (content m)
         in if is_list_content (content m) \<and> length items > 1
            then map (\<lambda>seg. if is_text_segment seg
                            then ChatMessage ''user'' (CStr (the (seg_text seg)))
                            else ChatMessage ''user'' (CList [seg])) items
            else [m])
      else if role m = ''assistant'' \<and> has_tool_calls m \<and> length (tcs_of m) > 1 then
        (let assistant_text = segments_to_text (normalize_content_to_list (content m))
         in (if assistant_text \<noteq> [] then [ChatMessage ''assistant'' (CStr assistant_text)] else [])
            @ map (\<lambda>tc. ChatMessage_tc ''assistant'' (CStr []) (Some [tc])) (tcs_of m))
      else [m])"

definition expand :: "chat_message list \<Rightarrow> chat_message list" where
  "expand history = concat (map expand_message history)"

text \<open>The backwards scan for the final input; the argument is the reversed list.\<close>

fun last_input_tool_id :: "chat_message list \<Rightarrow> string option" where
  "last_input_tool_id [] = None"
| "last_input_tool_id (m # ms) =
     (if role m = ''tool'' \<and> truthy_id (tool_call_id m) then tool_call_id m
      else if role m = ''user'' then None
      else last_input_tool_id ms)"

text \<open>The ids of a message's tool calls that are non-empty strings, in order.\<close>

definition tc_ids :: "chat_message \<Rightarrow> string list" where
  "tc_ids m = map (\<lambda>tc. the (tc_id tc)) (filter (\<lambda>tc. truthy_id (tc_id tc)) (tcs_of m))"

type_synonym results_by_id = "(string \<times> chat_message) list"

fun index_tool_results :: "chat_message list \<Rightarrow> results_by_id \<Rightarrow> results_by_id" where
  "index_tool_results [] d = d"
| "index_tool_results (m # ms) d =
     (if role m = ''tool'' \<and> truthy_id (tool_call_id m) \<and> map_of d (the (tool_call_id m)) = None
      then index_tool_results ms (d @ [(the (tool_call_id m), m)])
      else index_tool_results ms d)"

definition assistant_tc_ids :: "chat_message list \<Rightarrow> string list" where
  "assistant_tc_ids ms =
     concat (map tc_ids (filter (\<lambda>m. role m = ''assistant'' \<and> has_tool_calls m) ms))"

definition dict_pop :: "results_by_id \<Rightarrow> string \<Rightarrow> results_by_id" where
  "dict_pop d k = filter (\<lambda>kv. fst kv \<noteq> k) d"

fun append_tool_results ::
  "string list \<Rightarrow> chat_message list \<Rightarrow> results_by_id \<Rightarrow> chat_message list \<times> results_by_id" where
  "append_tool_results [] res d = (res, d)"
| "append_tool_results (i # ids) res d =
     (case map_of d i of
        None \<Rightarrow> append_tool_results ids res d
      | Some tr \<Rightarrow> append_tool_results ids (res @ [tr]) (dict_pop d i))"

text \<open>
  The main loop. The state is the result list, the dictionary of tool results not yet
  placed, and the deferred assistant message.
\<close>

fun reorder_loop ::
  "string option \<Rightarrow> string list \<Rightarrow> chat_message list \<Rightarrow>
   chat_message list \<Rightarrow> results_by_id \<Rightarrow> chat_message option \<Rightarrow>
   chat_message list \<times> results_by_id \<times> chat_message option" where
  "reorder_loop lid aids [] res d trailing = (res, d, trailing)"
| "reorder_loop lid aids (m # ms) res d trailing =
     (if role m = ''tool'' then
        (if \<not> truthy_id (tool_call_id m) \<or> the (tool_call_id m) \<notin> set aids
         then reorder_loop lid aids ms (res @ [m])
                (if truthy_id (tool_call_id m) then dict_pop d (the (tool_call_id m)) else d)
                trailing
         else reorder_loop lid aids ms res d trailing)
      else if role m = ''assistant'' \<and> has_tool_calls m then
        (if lid \<noteq> None \<and> the lid \<in> set (tc_ids m)
         then reorder_loop lid aids ms res d (if trailing = None then Some m else trailing)
         else (case append_tool_results (tc_ids m) (res @ [m]) d of
                 (res', d') \<Rightarrow> reorder_loop lid aids ms res' d' trailing))
      else reorder_loop lid aids ms (res @ [m]) d trailing)"

definition reorder_messages_for_anthropic :: "chat_message list \<Rightarrow> chat_message list" where
  "reorder_messages_for_anthropic history =
     (if history = [] then []
      else
        let expanded = expand history;
            lid = last_input_tool_id (rev expanded);
            d0 = index_tool_results expanded [];
            aids = assistant_tc_ids expanded
        in case reorder_loop lid aids expanded [] d0 None of
             (res, d, trailing) \<Rightarrow>
               (case (lid, trailing) of
                  (Some l, Some t) \<Rightarrow>
                    (case map_of d l of None \<Rightarrow> res @ [t] | Some tr \<Rightarrow> res @ [t, tr])
                | _ \<Rightarrow> res))"

section \<open>\<open>reorder.py\<close>: \<open>clean_incomplete_tool_calls\<close>\<close>

definition no_content :: ustr where
  "no_content = ascii ''No content''"

definition filled_msg :: "chat_message \<Rightarrow> chat_message" where
  "filled_msg m = ChatMessage_tool (role m) (CStr no_content) (tool_call_id m)"

text \<open>
  The inner loop: it gathers tool results and interrupting user or system messages
  until another message comes, and returns them with the matched ids and the messages
  it did not consume.
\<close>

fun collect_following ::
  "string list \<Rightarrow> chat_message list \<Rightarrow> chat_message list \<Rightarrow> string list \<Rightarrow> chat_message list \<Rightarrow>
   chat_message list \<times> string list \<times> chat_message list \<times> chat_message list" where
  "collect_following expected [] tool_results found interrupted =
     (tool_results, found, interrupted, [])"
| "collect_following expected (n # rest) tool_results found interrupted =
     (if role n = ''tool'' \<and> truthy_id (tool_call_id n) then
        (if the (tool_call_id n) \<in> set expected then
           (if content_blank (content n)
            then collect_following expected rest (tool_results @ [filled_msg n])
                   (found @ [the (tool_call_id n)]) interrupted
            else collect_following expected rest (tool_results @ [n])
                   (found @ [the (tool_call_id n)]) interrupted)
         else collect_following expected rest (tool_results @ [n]) found interrupted)
      else if role n = ''user'' \<or> role n = ''system'' then
        collect_following expected rest tool_results found (interrupted @ [n])
      else (tool_results, found, interrupted, n # rest))"

text \<open>The backwards search for a tool use; the argument is the reversed output so far.\<close>

fun has_matching_tool_use :: "string option \<Rightarrow> chat_message list \<Rightarrow> bool" where
  "has_matching_tool_use tid [] = False"
| "has_matching_tool_use tid (p # ps) =
     (if role p = ''assistant'' \<and> has_tool_calls p then
        (if list_ex (\<lambda>tc. tc_nonempty tc \<and> tc_id tc = tid) (tcs_of p) then True
         else has_matching_tool_use tid ps)
      else if role p = ''assistant'' then False
      else has_matching_tool_use tid ps)"

text \<open>What becomes of an assistant message once its following messages are collected.\<close>

definition settle_assistant ::
  "chat_message \<Rightarrow> string list \<Rightarrow> string list \<Rightarrow> chat_message list \<Rightarrow> chat_message list" where
  "settle_assistant cur expected found tool_results =
     (let missing = filter (\<lambda>i. i \<notin> set found) expected
      in if missing \<noteq> [] then
           (let valid_tool_calls =
                  filter (\<lambda>tc. tc_nonempty tc \<and> truthy_id (tc_id tc) \<and> the (tc_id tc) \<notin> set missing)
                    (tcs_of cur)
            in (if valid_tool_calls \<noteq> []
                then [ChatMessage_tc (role cur) (content cur) (Some valid_tool_calls)]
                else if content_truthy (content cur)
                then [ChatMessage_tc (role cur) (content cur) None]
                else [])
               @ filter (\<lambda>tr. tool_call_id tr \<noteq> None \<and> the (tool_call_id tr) \<in> set found) tool_results)
         else cur # tool_results)"

lemma collect_following_rest_length_aux:
  "length (snd (snd (snd (collect_following expected ms tr found intr)))) \<le> length ms"
  by (induction expected ms tr found intr rule: collect_following.induct) auto

lemma collect_following_rest_length:
  "collect_following expected ms tr found intr = (tr', found', intr', rest')
   \<Longrightarrow> length rest' \<le> length ms"
  using collect_following_rest_length_aux [of expected ms tr found intr] by simp

function clean_loop :: "chat_message list \<Rightarrow> chat_message list \<Rightarrow> chat_message list" where
  "clean_loop fixed_messages [] = fixed_messages"
| "clean_loop fixed_messages (cur # rest) =
     (if role cur = ''assistant'' \<and> has_tool_calls cur then
        (case collect_following (tc_ids cur) rest [] [] [] of
           (tool_results, found, interrupted, rest') \<Rightarrow>
             clean_loop (fixed_messages @ settle_assistant cur (tc_ids cur) found tool_results
                           @ interrupted) rest')
      else if role cur = ''tool'' then
        (if has_matching_tool_use (tool_call_id cur) (rev fixed_messages)
         then clean_loop (fixed_messages @ [if content_blank (content cur) then filled_msg cur else cur]) rest
         else clean_loop fixed_messages rest)
      else clean_loop (fixed_messages @ [cur]) rest)"
  by pat_completeness auto
termination
proof (relation "measure (\<lambda>(fixed_messages, ms). length ms)", goal_cases)
  case (2 fixed_messages cur rest tool_results y found ya interrupted rest')
  then have "collect_following (tc_ids cur) rest [] [] [] = (tool_results, found, interrupted, rest')"
    by simp
  then have "length rest' \<le> length rest"
    by (rule collect_following_rest_length)
  then show ?case by simp
qed auto

definition clean_incomplete_tool_calls :: "chat_message list \<Rightarrow> chat_message list" where
  "clean_incomplete_tool_calls messages = clean_loop [] messages"

definition normalize :: "chat_message list \<Rightarrow> chat_message list" where
  "normalize h = clean_incomplete_tool_calls (reorder_messages_for_anthropic h)"

section \<open>\<open>helpers.py\<close>: \<open>segments_to_warp_results\<close>\<close>

definition CHUNK_SIZE :: nat where
  "CHUNK_SIZE = 1000"

text \<open>The split points, tried in this order: paragraph, line, sentence, clause, space.\<close>

definition split_chars :: "ustr list" where
  "split_chars = [[10, 10], [10], [46, 32], [12290], [65281], [65311], [44, 32], [65292], [32]]"

text \<open>
  \<open>text.rfind(sub, start, end)\<close>: the highest index \<open>i\<close> with
  \<open>start \<le> i\<close> and \<open>i + len(sub) \<le> end\<close> at which \<open>sub\<close> occurs; \<open>None\<close>
  stands for Python's \<open>-1\<close>. It is called with \<open>end < len(text)\<close> only.
\<close>

definition occurs_at :: "ustr \<Rightarrow> ustr \<Rightarrow> nat \<Rightarrow> bool" where
  "occurs_at text sub i = (take (length sub) (drop i text) = sub)"

definition rfind :: "ustr \<Rightarrow> ustr \<Rightarrow> nat \<Rightarrow> nat \<Rightarrow> nat option" where
  "rfind text sub start end' =
     (if start + length sub \<le> end'
      then List.find (occurs_at text sub) (rev [start ..< Suc (end' - length sub)])
      else None)"

fun best_split :: "ustr \<Rightarrow> nat \<Rightarrow> nat \<Rightarrow> ustr list \<Rightarrow> nat" where
  "best_split text start end' [] = end'"
| "best_split text start end' (sc # scs) =
     (case rfind text sc start end' of
        Some split_pos \<Rightarrow>
          (if split_pos > start then split_pos + length sc
           else best_split text start end' scs)
      | None \<Rightarrow> best_split text start end' scs)"

text \<open>
  The \<open>while start < len(text)\<close> loop of \<open>smart_split_text\<close>. With
  \<open>chunk_size = 0\<close> the source may never leave it, so the result is an option.
\<close>

partial_function (option) split_loop :: "ustr \<Rightarrow> nat \<Rightarrow> nat \<Rightarrow> ustr list \<Rightarrow> ustr list option" where
  "split_loop text chunk_size start chunks =
     (if start < length text then
        (if start + chunk_size \<ge> length text then Some (chunks @ [drop start text])
         else split_loop text chunk_size
                (best_split text start (start + chunk_size) split_chars)
                (chunks @ [take (best_split text start (start + chunk_size) split_chars - start)
                                (drop start text)]))
      else Some chunks)"

definition smart_split_text :: "ustr \<Rightarrow> nat \<Rightarrow> ustr list option" where
  "smart_split_text text chunk_size =
     (if length text \<le> chunk_size then Some [text] else split_loop text chunk_size 0 [])"

text \<open>\<open>str(n)\<close> for a natural number.\<close>

fun str_nat :: "nat \<Rightarrow> ustr" where
  "str_nat n = (if n < 10 then [48 + n] else str_nat (n div 10) @ [48 + n mod 10])"

declare str_nat.simps [simp del]

definition segment_marker :: "nat \<Rightarrow> nat \<Rightarrow> ustr" where
  "segment_marker i n = [91] @ str_nat i @ [47] @ str_nat n @ [93]"

text \<open>The marker goes behind the first chunk and in front of every other one.\<close>

definition mark_chunk :: "nat \<Rightarrow> nat \<times> ustr \<Rightarrow> ustr" where
  "mark_chunk n ic =
     (if n > 1 then
        (if fst ic = 0 then snd ic @ [32] @ segment_marker 1 n
         else segment_marker (fst ic + 1) n @ [32] @ snd ic)
      else snd ic)"

definition mark_chunks :: "ustr list \<Rightarrow> ustr list" where
  "mark_chunks chunks = map (mark_chunk (length chunks)) (enumerate 0 chunks)"

text \<open>The chunks of one text segment.\<close>

definition segment_results :: "ustr \<Rightarrow> ustr list option" where
  "segment_results text =
     (if length text > CHUNK_SIZE
      then map_option mark_chunks (smart_split_text text CHUNK_SIZE)
      else Some [text])"

text \<open>
  Every result is \<open>{"text": {"text": chunk}}\<close>; the model keeps the chunk. Segments
  that are not text segments contribute nothing.
\<close>

fun segments_to_warp_results :: "segment list \<Rightarrow> ustr list option" where
  "segments_to_warp_results [] = Some []"
| "segments_to_warp_results (seg # segs) =
     (if is_text_segment seg then
        (case segment_results (the (seg_text seg)) of
           None \<Rightarrow> None
         | Some rs \<Rightarrow> map_option ((@) rs) (segments_to_warp_results segs))
      else segments_to_warp_results segs)"

section \<open>\<open>packets.py\<close>\<close>

definition RESTRICTED_TOOLS :: "string list" where
  "RESTRICTED_TOOLS =
     [''read_files'', ''write_files'', ''list_files'', ''apply_file_diffs'',
      ''str_replace_editor'', ''search_files'', ''apply_file_diffs'', ''search_codebase'',
      ''suggest_plan'', ''suggest_create_plan'', ''grep'', ''file_glob'', ''file_glob_v2'',
      ''read_mcp_resource'', ''write_to_long_running_shell_command'',
      ''suggest_new_conversation'', ''ask_followup_question'', ''attempt_completion'']"

text \<open>\<open>sep.join(parts)\<close>\<close>

fun join :: "ustr \<Rightarrow> ustr list \<Rightarrow> ustr" where
  "join sep [] = []"
| "join sep [x] = x"
| "join sep (x # y # ys) = x @ sep @ join sep (y # ys)"

definition get_tool_restrictions_text :: ustr where
  "get_tool_restrictions_text =
     ascii ''<ALERT>you are not allowed to call following tools:'' @ [10]
     @ join [10] (map (\<lambda>tool. [45, 32, 96] @ ascii tool @ [96]) RESTRICTED_TOOLS) @
     [10, 10] @ ascii ''IMPORTANT: When using git diff or similar commands to view f'' @
     ascii ''ile changes, always check ONE file at a time to avoid execut'' @
     ascii ''ion issues. Use separate commands for each file instead of p'' @
     ascii ''assing multiple files to a single command.'' @ [10, 10] @ ascii ''Example:'' @
     [10] @ ascii ''- '' @ [9989] @ ascii '' Good: git diff file1.py'' @ [10] @ ascii ''- '' @
     [9989] @ ascii '' Good: git diff file2.py'' @ [10] @ ascii ''- '' @ [10060] @
     ascii '' Avoid: git diff file1.py file2.py</ALERT>''"

definition tool_restriction_inline :: ustr where
  "tool_restriction_inline =
     [9888, 65039] @ ascii '' CRITICAL REMINDER: You MUST NOT use these restricted tools:'' @
     ascii '' ''
     @ join (ascii '', '') (map ascii (take 8 RESTRICTED_TOOLS)) @ ascii ''... '' @
     ascii ''Use only MCP-provided tools. '' @ [10, 10]"

definition continue_query :: ustr where
  "continue_query = [35831, 32487, 32493]"

text \<open>
  The request packet. Of \<open>packet_template\<close> the model keeps the three parts that the
  functions below write: the task messages, the inputs and the base model; the other
  settings are constants.
\<close>

datatype warp_input =
    UserQuery (query: ustr) (plain_text: ustr)
  | ToolCallResult string "ustr list"

record packet =
  active_task_id :: string
  inputs :: "warp_input list"
  base :: string

definition packet_template :: packet where
  "packet_template = \<lparr>active_task_id = [], inputs = [], base = ''claude-4.1-opus''\<rparr>"

datatype error = AssertionError | HTTPException nat

definition referenced_text :: "ustr option \<Rightarrow> ustr" where
  "referenced_text system_prompt_text =
     (case system_prompt_text of
        None \<Rightarrow> get_tool_restrictions_text
      | Some sp \<Rightarrow> get_tool_restrictions_text @ sp)"

definition append_input :: "packet \<Rightarrow> warp_input \<Rightarrow> packet" where
  "append_input p i = p\<lparr>inputs := inputs p @ [i]\<rparr>"

text \<open>
  \<open>attach_user_and_tools_to_inputs\<close>. The outer option is \<open>None\<close> only if chunking
  a tool result does not return; \<open>Inl\<close> is the failed assertion.
\<close>

definition attach_user_and_tools_to_inputs ::
  "packet \<Rightarrow> chat_message list \<Rightarrow> ustr option \<Rightarrow> (error + packet) option" where
  "attach_user_and_tools_to_inputs p history system_prompt_text =
     (if history = [] then Some (Inl AssertionError)
      else
        let last' = last history in
        if role last' = ''user'' then
          (let query_text = segments_to_text (normalize_content_to_list (content last'));
               query_text = (if list_all py_isspace query_text then [32] else query_text)
           in Some (Inr (append_input p
                (UserQuery (tool_restriction_inline @ query_text)
                           (referenced_text system_prompt_text)))))
        else if role last' = ''tool'' \<and> truthy_id (tool_call_id last') then
          (case segments_to_warp_results (normalize_content_to_list (content last')) of
             None \<Rightarrow> None
           | Some tool_results \<Rightarrow>
               Some (Inr (append_input p
                 (ToolCallResult (the (tool_call_id last'))
                    (if tool_results = [] then [[32]] else tool_results)))))
        else if role last' = ''assistant'' then
          (if has_tool_calls last' then Some (Inr p)
           else Some (Inr (append_input p
                  (UserQuery continue_query (referenced_text system_prompt_text)))))
        else Some (Inr p))"

section \<open>\<open>router.py\<close>: from the request to the packet\<close>

text \<open>The system prompt: the non-blank texts of the system messages, joined by a blank line.\<close>

definition system_prompt_text :: "chat_message list \<Rightarrow> ustr option" where
  "system_prompt_text history =
     (let chunks = filter (\<lambda>t. \<not> list_all py_isspace t)
                     (map (\<lambda>m. segments_to_text (normalize_content_to_list (content m)))
                        (filter (\<lambda>m. role m = ''system'') history))
      in if chunks = [] then None else Some (join [10, 10] chunks))"

text \<open>
  \<open>chat_completions\<close> up to the call of \<open>attach_user_and_tools_to_inputs\<close>: the
  validation of the request, the two normalizer passes, the template and the inputs.
\<close>

definition build_packet :: "chat_message list \<Rightarrow> string option \<Rightarrow> (error + packet) option" where
  "build_packet messages model =
     (if messages = [] then Some (Inl (HTTPException 400))
      else
        let history = clean_incomplete_tool_calls (reorder_messages_for_anthropic messages);
            p = packet_template\<lparr>base := (case model of Some m \<Rightarrow> if m \<noteq> [] then m else base packet_template
                                                   | None \<Rightarrow> base packet_template)\<rparr>
        in attach_user_and_tools_to_inputs p history (system_prompt_text history))"

section \<open>\<open>sse_transform.py\<close>: the recovery hint\<close>

text \<open>\<open>sub in s\<close> on strings: \<open>sub\<close> occurs in \<open>s\<close> as a contiguous run.\<close>

fun contains :: "'a list \<Rightarrow> 'a list \<Rightarrow> bool" where
  "contains [] sub = (sub = [])"
| "contains (c # cs) sub = (prefix sub (c # cs) \<or> contains cs sub)"

definition recovery_marker :: ustr where
  "recovery_marker = ascii ''['' @ [31995, 32479, 33258, 21160, 24674, 22797] @ ascii '']''"

text \<open>The hint for a failed tool; without a tool name the text names no tool.\<close>

definition recovery_prompt :: "ustr option \<Rightarrow> ustr" where
  "recovery_prompt tool_name =
     (case tool_name of
        Some t \<Rightarrow>
          (if t \<noteq> [] then
          [10, 10] @ ascii ''['' @ [31995, 32479, 33258, 21160, 24674, 22797] @ ascii ''] '' @
          [35831, 32487, 32493, 20043, 21069, 30340, 20219, 21153, 65292, 20294, 19981, 35201, 20351, 29992] @
          ascii '' '' @ t @
          ascii '' '' @
          [24037, 20855, 12290, 21487, 29992, 30340, 24037, 20855, 21253, 25324, 65306] @
          ascii ''Read'' @ [12289] @ ascii ''Write'' @ [12289] @ ascii ''Edit'' @ [12289] @
          ascii ''Bash'' @ [12289] @ ascii ''Glob'' @ [12289] @ ascii ''Grep '' @ [31561] @
          ascii '' MCP '' @ [24037, 20855, 12290]
           else
        [10, 10] @ ascii ''['' @ [31995, 32479, 33258, 21160, 24674, 22797] @ ascii ''] '' @
        [35831, 32487, 32493, 20043, 21069, 30340, 20219, 21153, 65292, 20351, 29992, 21487, 29992, 30340] @
        ascii '' MCP '' @ [24037, 20855, 23436, 25104, 12290])
      | None \<Rightarrow>
        [10, 10] @ ascii ''['' @ [31995, 32479, 33258, 21160, 24674, 22797] @ ascii ''] '' @
        [35831, 32487, 32493, 20043, 21069, 30340, 20219, 21153, 65292, 20351, 29992, 21487, 29992, 30340] @
        ascii '' MCP '' @ [24037, 20855, 23436, 25104, 12290])"

text \<open>
  The change made to the deep copy of the packet: only the last input is looked at, and
  only if it is a \<open>user_query\<close>.
\<close>

definition inject_recovery_prompt :: "packet \<Rightarrow> ustr option \<Rightarrow> packet" where
  "inject_recovery_prompt p tool_name =
     (if inputs p = [] then p
      else case last (inputs p) of
             UserQuery current_query pt \<Rightarrow>
               (if \<not> contains current_query recovery_marker
                then p\<lparr>inputs := butlast (inputs p)
                                   @ [UserQuery (current_query @ recovery_prompt tool_name) pt]\<rparr>
                else p)
           | ToolCallResult _ _ \<Rightarrow> p)"

text \<open>
  The handler of \<open>InternalErrorRecoverable\<close> in \<open>stream_openai_sse\<close>: after one
  retry it gives up; otherwise it retries with the changed packet and the next count.
\<close>

datatype recovery = GiveUp | Retry packet nat

definition on_internal_error :: "nat \<Rightarrow> packet \<Rightarrow> ustr option \<Rightarrow> recovery" where
  "on_internal_error retry_count p tool_name =
     (if retry_count \<ge> 1 then GiveUp
      else Retry (inject_recovery_prompt p tool_name) (retry_count + 1))"

section \<open>\<open>sse_transform.py\<close>: the OpenAI translator\<close>

text \<open>\<open>str.lower()\<close> on the letters that the test below can see.\<close>

definition lower :: "char \<Rightarrow> char" where
  "lower c = (if (65::nat) \<le> of_char c \<and> of_char c \<le> (90::nat)
              then char_of (of_char c + (32::nat)) else c)"

definition get_model_context_window :: "string \<Rightarrow> nat" where
  "get_model_context_window model_name =
     (let model_lower = map lower model_name
      in if contains model_lower ''claude-3'' then 200000
         else if contains model_lower ''claude-4'' then 200000
         else 100000)"

text \<open>
  The translator reads the upstream stream frame by frame: the \<open>data:\<close> lines before
  a blank line are joined and parsed as JSON. The model starts from the parsed frames:
  an event, a frame that does not parse, or the \<open>[DONE]\<close> payload. Decoding the
  \<open>serialized_result\<close> of a tool result is the codec's work; the event carries its
  outcome, the task list if there is one.
\<close>

datatype todo_status = Pending | Completed

datatype task_message =
    ToolCallResultMsg "string option" "(ustr \<times> todo_status) list option"
  | ToolCallMsg "string option" "string option" ustr
  | AgentOutputMsg ustr
  | OtherMsg

datatype action =
    AppendToMessageContent ustr
  | AddMessagesToTask "task_message list"
  | UpdateTaskMessage ustr
  | CreateTask "ustr list"
  | UpdateTaskSummary ustr
  | OtherAction

text \<open>
  \<open>context_window_info\<close> is absent, a number, or a dictionary read under the keys
  \<open>context_window_usage\<close>, \<open>used\<close> and \<open>ratio\<close>.
\<close>

datatype window_info = NoInfo | Ratio rat | InfoDict "rat option" "rat option" "rat option"

record finished_event =
  internal_error :: "ustr option"
  llm_unavailable :: bool
  context_window_info :: window_info

record event_data =
  client_actions :: "action list option"
  update_task_description :: "ustr option"
  finished :: "finished_event option"

datatype frame = Frame event_data | BadFrame | DoneFrame

datatype tool_args = JsonArgs ustr | TodoArgs "(ustr \<times> todo_status) list"

text \<open>
  The chunks written to the client: a content delta, a tool-call delta (its id is
  \<open>None\<close> where the source makes up a fresh one), the terminating chunk with its
  finish reason and usage, and the line \<open>data: [DONE]\<close>.
\<close>

datatype openai_out =
    ContentOut ustr
  | ToolCallOut "string option" string tool_args
  | FinishOut string int int int
  | DoneOut

datatype raised = InternalErrorRecoverable "ustr option" ustr | LLMUnavailableRecoverable

text \<open>
  What the translator takes from outside: the tokenizer, the product of two floating
  point numbers cut to an integer (\<open>int(context_usage * max_context)\<close>), and the
  regular expression that finds the tool name in an error message.
\<close>

record env =
  count_tokens :: "ustr \<Rightarrow> string \<Rightarrow> nat"
  int_of_product :: "rat \<Rightarrow> nat \<Rightarrow> int"
  tool_name_in :: "ustr \<Rightarrow> ustr option"

record process_state =
  tool_calls_emitted :: bool
  output_text :: ustr

definition emit_text :: "process_state \<Rightarrow> ustr \<Rightarrow> openai_out list \<times> process_state" where
  "emit_text st text_content =
     (if text_content \<noteq> []
      then ([ContentOut text_content], st\<lparr>output_text := output_text st @ text_content\<rparr>)
      else ([], st))"

fun emit_texts :: "process_state \<Rightarrow> ustr list \<Rightarrow> openai_out list \<times> process_state" where
  "emit_texts st [] = ([], st)"
| "emit_texts st (t # ts) =
     (case emit_text st t of
        (outs, st1) \<Rightarrow> (case emit_texts st1 ts of (outs', st2) \<Rightarrow> (outs @ outs', st2)))"

text \<open>One message of \<open>add_messages_to_task\<close>.\<close>

fun process_message :: "process_state \<Rightarrow> task_message \<Rightarrow> openai_out list \<times> process_state" where
  "process_message st (ToolCallResultMsg call_id task_data) =
     (if truthy_id call_id then
        (case task_data of
           Some todos \<Rightarrow> ([ToolCallOut call_id ''TodoWrite'' (TodoArgs todos)], st)
         | None \<Rightarrow> ([], st))
      else ([], st))"
| "process_message st (ToolCallMsg call_id tool_name args_str) =
     (if truthy_id tool_name
      then ([ToolCallOut (if truthy_id call_id then call_id else None)
               (the tool_name) (JsonArgs args_str)],
            st\<lparr>tool_calls_emitted := True\<rparr>)
      else ([], st))"
| "process_message st (AgentOutputMsg text_content) = emit_text st text_content"
| "process_message st OtherMsg = ([], st)"

fun process_messages :: "process_state \<Rightarrow> task_message list \<Rightarrow> openai_out list \<times> process_state" where
  "process_messages st [] = ([], st)"
| "process_messages st (m # ms) =
     (case process_message st m of
        (outs, st1) \<Rightarrow> (case process_messages st1 ms of (outs', st2) \<Rightarrow> (outs @ outs', st2)))"

fun process_action :: "process_state \<Rightarrow> action \<Rightarrow> openai_out list \<times> process_state" where
  "process_action st (AppendToMessageContent t) = emit_text st t"
| "process_action st (AddMessagesToTask ms) = process_messages st ms"
| "process_action st (UpdateTaskMessage t) = emit_text st t"
| "process_action st (CreateTask ts) = emit_texts st ts"
| "process_action st (UpdateTaskSummary t) = emit_text st t"
| "process_action st OtherAction = ([], st)"

fun process_actions :: "process_state \<Rightarrow> action list \<Rightarrow> openai_out list \<times> process_state" where
  "process_actions st [] = ([], st)"
| "process_actions st (a # as) =
     (case process_action st a of
        (outs, st1) \<Rightarrow> (case process_actions st1 as of (outs', st2) \<Rightarrow> (outs @ outs', st2)))"

text \<open>The notice for a context reset, built from the task description.\<close>

fun after_first :: "ustr \<Rightarrow> ustr \<Rightarrow> ustr" where
  "after_first sep [] = []"
| "after_first sep (c # cs) =
     (if prefix sep (c # cs) then drop (length sep) (c # cs) else after_first sep cs)"

fun before_first :: "ustr \<Rightarrow> ustr \<Rightarrow> ustr" where
  "before_first sep [] = []"
| "before_first sep (c # cs) =
     (if prefix sep (c # cs) then [] else c # before_first sep cs)"

definition strip :: "ustr \<Rightarrow> ustr" where
  "strip s = rev (dropWhile py_isspace (rev (dropWhile py_isspace s)))"

text \<open>\<open>desc.split(marker)[1].split("\n\n")[0].strip()\<close>, for a marker that occurs.\<close>

definition section_after :: "ustr \<Rightarrow> ustr \<Rightarrow> ustr" where
  "section_after marker desc =
     strip (before_first [10, 10] (before_first marker (after_first marker desc)))"

definition reset_reminder :: ustr where
  "reset_reminder =
     [10, 10, 9888, 65039] @ ascii '' **'' @ [37325, 35201, 25552, 37266, 65306] @
     ascii ''** '' @
     [20026, 36991, 20813, 37325, 22797, 37325, 32622, 65292, 35831, 65306, 10, 8226] @
     ascii '' '' @ [26041, 26696] @ ascii ''1'' @
     [65306, 25191, 34892, 21387, 32553, 19978, 19979, 25991, 25351, 20196, 65288, 22914] @
     ascii '' '' @ [96] @ ascii ''/compact'' @ [96, 65289, 10, 8226] @ ascii '' '' @
     [26041, 26696] @ ascii ''2'' @
     [65306, 24320, 21551, 26032, 23545, 35805, 32487, 32493, 26410, 23436, 25104, 30340, 20219, 21153, 10, 10, 128161] @
     ascii '' '' @
     [35831, 32487, 32493, 20043, 21069, 30340, 24037, 20316, 25110, 35810, 38382, 38656, 35201, 23436, 25104, 30340, 20855, 20307, 20219, 21153, 12290]"

definition context_reset_notice :: "ustr \<Rightarrow> ustr" where
  "context_reset_notice task_desc =
     (if contains task_desc (ascii ''Pending Tasks:'') then
        [10, 10, 128203] @ ascii '' **'' @
     [19978, 19979, 25991, 24050, 37325, 32622, 65292, 20294, 26377, 24453, 22788, 29702, 20219, 21153] @
     ascii '':**'' @ [10] @
        section_after (ascii ''Pending Tasks:'') task_desc @ reset_reminder
      else if contains task_desc (ascii ''Optional Next Step:'') then
        [10, 10, 128203] @ ascii '' **'' @
     [19978, 19979, 25991, 24050, 37325, 32622, 65292, 24314, 35758, 19979, 19968, 27493] @
     ascii '':**'' @ [10] @
        section_after (ascii ''Optional Next Step:'') task_desc @ reset_reminder
      else
        [10, 10, 128203] @ ascii '' **'' @ [19978, 19979, 25991, 24050, 37325, 32622] @
     ascii ''**'' @ [10, 10, 9888, 65039] @ ascii '' **'' @
     [37325, 35201, 25552, 37266, 65306] @ ascii ''** '' @
     [20026, 36991, 20813, 37325, 22797, 37325, 32622, 65292, 35831, 65306, 10, 8226] @
     ascii '' '' @ [26041, 26696] @ ascii ''1'' @
     [65306, 25191, 34892, 21387, 32553, 19978, 19979, 25991, 25351, 20196, 65288, 22914] @
     ascii '' '' @ [96] @ ascii ''/compact'' @ [96, 65289, 10, 8226] @ ascii '' '' @
     [26041, 26696] @ ascii ''2'' @
     [65306, 24320, 21551, 26032, 23545, 35805, 32487, 32493, 24037, 20316, 10, 10, 128161] @
     ascii '' '' @
     [23545, 35805, 19978, 19979, 25991, 36807, 38271, 24050, 33258, 21160, 37325, 32622, 12290, 22914, 26377, 26410, 23436, 25104, 30340, 20219, 21153, 65292, 35831, 37325, 26032, 35828, 26126, 38656, 35201, 32487, 32493, 30340, 24037, 20316, 12290])"

text \<open>The usage ratio read from \<open>context_window_info\<close>, when the value is truthy.\<close>

definition num_or :: "rat option \<Rightarrow> rat \<Rightarrow> rat" where
  "num_or a b = (case a of Some x \<Rightarrow> if x \<noteq> 0 then x else b | None \<Rightarrow> b)"

definition context_usage :: "window_info \<Rightarrow> rat option" where
  "context_usage info =
     (case info of
        NoInfo \<Rightarrow> None
      | Ratio r \<Rightarrow> (if r \<noteq> 0 then Some r else None)
      | InfoDict a b c \<Rightarrow>
          (if a = None \<and> b = None \<and> c = None then None
           else Some (num_or a (num_or b (case c of Some x \<Rightarrow> x | None \<Rightarrow> 0)))))"

definition fallback_input_tokens :: "int \<Rightarrow> int" where
  "fallback_input_tokens input_tokens = (if input_tokens > 0 then input_tokens else 1000)"

definition estimated_input_tokens :: "env \<Rightarrow> string \<Rightarrow> int \<Rightarrow> window_info \<Rightarrow> int" where
  "estimated_input_tokens e model_id input_tokens info =
     (case context_usage info of
        Some usage \<Rightarrow>
          (if usage > 0 then int_of_product e usage (get_model_context_window model_id)
           else fallback_input_tokens input_tokens)
      | None \<Rightarrow> fallback_input_tokens input_tokens)"

definition estimated_output_tokens :: "env \<Rightarrow> string \<Rightarrow> ustr \<Rightarrow> int" where
  "estimated_output_tokens e model_id out_text =
     (let n = (if out_text \<noteq> [] then int (count_tokens e out_text model_id) else 0)
      in if n = 0 then 1 else n)"

definition done_chunk :: "env \<Rightarrow> string \<Rightarrow> int \<Rightarrow> process_state \<Rightarrow> finished_event \<Rightarrow> openai_out" where
  "done_chunk e model_id input_tokens st f =
     FinishOut (if tool_calls_emitted st then ''tool_calls'' else ''stop'')
       (estimated_input_tokens e model_id input_tokens (context_window_info f))
       (estimated_output_tokens e model_id (output_text st))
       (estimated_input_tokens e model_id input_tokens (context_window_info f)
          + estimated_output_tokens e model_id (output_text st))"

text \<open>One event: its actions, then the context reset, then \<open>finished\<close>.\<close>

definition process_event ::
  "env \<Rightarrow> string \<Rightarrow> int \<Rightarrow> process_state \<Rightarrow> event_data \<Rightarrow>
   openai_out list \<times> process_state \<times> raised option" where
  "process_event e model_id input_tokens st ev =
     (case process_actions st (case client_actions ev of Some as \<Rightarrow> as | None \<Rightarrow> []) of
        (outs1, st1) \<Rightarrow>
          (case (case update_task_description ev of
                   Some d \<Rightarrow> emit_text st1 (context_reset_notice d)
                 | None \<Rightarrow> ([], st1)) of
             (outs2, st2) \<Rightarrow>
               (case finished ev of
                  None \<Rightarrow> (outs1 @ outs2, st2, None)
                | Some f \<Rightarrow>
                    (case internal_error f of
                       Some msg \<Rightarrow>
                         (outs1 @ outs2, st2, Some (InternalErrorRecoverable (tool_name_in e msg) msg))
                     | None \<Rightarrow>
                         if llm_unavailable f
                         then (outs1 @ outs2, st2, Some LLMUnavailableRecoverable)
                         else (outs1 @ outs2 @ [done_chunk e model_id input_tokens st2 f], st2, None)))))"

text \<open>
  The loop over the frames. It goes on after a \<open>finished\<close> event; it ends with the
  stream, at the \<open>[DONE]\<close> payload, or when an error is raised.
\<close>

fun process_frames ::
  "env \<Rightarrow> string \<Rightarrow> int \<Rightarrow> process_state \<Rightarrow> frame list \<Rightarrow>
   openai_out list \<times> process_state \<times> raised option" where
  "process_frames e model_id input_tokens st [] = ([], st, None)"
| "process_frames e model_id input_tokens st (DoneFrame # fs) = ([], st, None)"
| "process_frames e model_id input_tokens st (BadFrame # fs) =
     process_frames e model_id input_tokens st fs"
| "process_frames e model_id input_tokens st (Frame ev # fs) =
     (case process_event e model_id input_tokens st ev of
        (outs, st1, Some r) \<Rightarrow> (outs, st1, Some r)
      | (outs, st1, None) \<Rightarrow>
          (case process_frames e model_id input_tokens st1 fs of
             (outs', st2, r) \<Rightarrow> (outs @ outs', st2, r)))"

definition initial_process_state :: process_state where
  "initial_process_state = \<lparr>tool_calls_emitted = False, output_text = []\<rparr>"

text \<open>The whole generator: the chunks it yields, and the error it raises, if any.\<close>

definition process_sse_response_lines ::
  "env \<Rightarrow> string \<Rightarrow> int \<Rightarrow> frame list \<Rightarrow> openai_out list \<times> raised option" where
  "process_sse_response_lines e model_id input_tokens frames =
     (case process_frames e model_id input_tokens initial_process_state frames of
        (outs, st, Some r) \<Rightarrow> (outs, Some r)
      | (outs, st, None) \<Rightarrow> (outs @ [DoneOut], None))"

section \<open>\<open>anthropic_sse_transform.py\<close>\<close>

text \<open>
  The translator reads the lines of the OpenAI stream. A line is blank, does not start
  with \<open>data: \<close>, is the \<open>[DONE]\<close> marker, carries text that is not JSON, or
  carries a chunk. Of a chunk the translator reads the first choice (its delta and its
  \<open>finish_reason\<close>) and the chunk_usage.
\<close>

record tool_call_delta =
  tcd_id :: "string option"
  tcd_name :: "string option"
  tcd_arguments :: "ustr option"

record openai_choice =
  delta_role :: "string option"
  delta_content :: "ustr option"
  delta_tool_calls :: "tool_call_delta list"
  finish_reason :: "string option"

record openai_chunk =
  choices :: "openai_choice list"
  chunk_usage :: "(nat \<times> nat) option"

datatype chunk_line = BlankLine | NotData | DoneLine | NotJson | DataChunk openai_chunk

datatype content_block = TextBlock | ToolUse string string

datatype block_delta = TextDelta ustr | InputJsonDelta ustr

datatype anthropic_event =
    MessageStart
  | ContentBlockStart nat content_block
  | ContentBlockDelta nat block_delta
  | ContentBlockStop nat
  | MessageDelta string nat nat
  | MessageStop

record translator_state =
  content_index :: nat
  has_text_content :: bool
  has_tool_calls_open :: bool
  current_tool_call :: "(string \<times> string \<times> ustr) option"
  ts_input_tokens :: nat
  ts_output_tokens :: nat

definition initial_state :: translator_state where
  "initial_state = \<lparr>content_index = 0, has_text_content = False, has_tool_calls_open = False,
                      current_tool_call = None, ts_input_tokens = 0, ts_output_tokens = 0\<rparr>"

definition truthy_text :: "ustr option \<Rightarrow> bool" where
  "truthy_text x = (case x of None \<Rightarrow> False | Some s \<Rightarrow> s \<noteq> [])"

text \<open>The text part of a delta.\<close>

definition on_content :: "translator_state \<Rightarrow> ustr \<Rightarrow> anthropic_event list \<times> translator_state" where
  "on_content s text_content =
     ((if \<not> has_text_content s then [ContentBlockStart (content_index s) TextBlock] else [])
        @ [ContentBlockDelta (content_index s) (TextDelta text_content)],
      s\<lparr>has_text_content := True\<rparr>)"

text \<open>
  One entry of \<open>delta.tool_calls\<close>. An entry with an id and a name opens a tool block:
  an open text block is stopped and the index moves on; if a tool block was opened
  before, the index moves on.
\<close>

definition open_tool_block ::
  "translator_state \<Rightarrow> string \<Rightarrow> string \<Rightarrow> anthropic_event list \<times> translator_state" where
  "open_tool_block s tid tool_name =
     (let closing = (if has_text_content s then [ContentBlockStop (content_index s)] else []);
          s1 = (if has_text_content s
                then s\<lparr>content_index := content_index s + 1, has_text_content := False\<rparr> else s);
          s2 = (if has_tool_calls_open s1 then s1\<lparr>content_index := content_index s1 + 1\<rparr> else s1);
          s3 = s2\<lparr>current_tool_call := Some (tid, tool_name, []), has_tool_calls_open := True\<rparr>
      in (closing @ [ContentBlockStart (content_index s3) (ToolUse tid tool_name)], s3))"

definition on_tool_call ::
  "translator_state \<Rightarrow> tool_call_delta \<Rightarrow> anthropic_event list \<times> translator_state" where
  "on_tool_call s tc =
     (case (if truthy_id (tcd_id tc) \<and> truthy_id (tcd_name tc)
            then open_tool_block s (the (tcd_id tc)) (the (tcd_name tc)) else ([], s)) of
        (evs, s1) \<Rightarrow>
          (case current_tool_call s1 of
             Some (tid, tool_name, args) \<Rightarrow>
               (if truthy_text (tcd_arguments tc)
                then (evs @ [ContentBlockDelta (content_index s1)
                               (InputJsonDelta (the (tcd_arguments tc)))],
                      s1\<lparr>current_tool_call :=
                            Some (tid, tool_name, args @ the (tcd_arguments tc))\<rparr>)
                else (evs, s1))
           | None \<Rightarrow> (evs, s1)))"

fun on_tool_calls ::
  "translator_state \<Rightarrow> tool_call_delta list \<Rightarrow> anthropic_event list \<times> translator_state" where
  "on_tool_calls s [] = ([], s)"
| "on_tool_calls s (tc # tcs) =
     (case on_tool_call s tc of
        (evs, s1) \<Rightarrow> (case on_tool_calls s1 tcs of (evs', s2) \<Rightarrow> (evs @ evs', s2)))"

definition stop_reason_mapping :: "string \<Rightarrow> string" where
  "stop_reason_mapping r =
     (if r = ''stop'' then ''end_turn''
      else if r = ''length'' then ''max_tokens''
      else if r = ''tool_calls'' then ''tool_use''
      else if r = ''content_filter'' then ''stop_sequence''
      else ''end_turn'')"

text \<open>The end of the message: the open block, if any, is stopped at the current index.\<close>

definition on_finish ::
  "translator_state \<Rightarrow> string \<Rightarrow> (nat \<times> nat) option \<Rightarrow> anthropic_event list" where
  "on_finish s reason u =
     (let s1 = (case u of Some (p, c) \<Rightarrow> s\<lparr>ts_input_tokens := p, ts_output_tokens := c\<rparr> | None \<Rightarrow> s)
      in (if has_text_content s1 \<or> has_tool_calls_open s1
          then [ContentBlockStop (content_index s1)] else [])
         @ [MessageDelta (stop_reason_mapping reason) (ts_input_tokens s1) (ts_output_tokens s1),
            MessageStop])"

text \<open>
  The loop over the lines. It ends at the \<open>[DONE]\<close> marker, after a chunk with a
  \<open>finish_reason\<close>, or with the stream.
\<close>

fun translate_lines :: "translator_state \<Rightarrow> chunk_line list \<Rightarrow> anthropic_event list" where
  "translate_lines s [] = []"
| "translate_lines s (BlankLine # ls) = translate_lines s ls"
| "translate_lines s (NotData # ls) = translate_lines s ls"
| "translate_lines s (DoneLine # ls) = []"
| "translate_lines s (NotJson # ls) = translate_lines s ls"
| "translate_lines s (DataChunk chunk # ls) =
     (case choices chunk of
        [] \<Rightarrow> translate_lines s ls
      | choice # _ \<Rightarrow>
          if delta_role choice = Some ''assistant'' \<and> \<not> has_text_content s \<and> \<not> has_tool_calls_open s
          then translate_lines s ls
          else
            (case (if truthy_text (delta_content choice)
                   then on_content s (the (delta_content choice)) else ([], s)) of
               (evs1, s1) \<Rightarrow>
                 (case on_tool_calls s1 (delta_tool_calls choice) of
                    (evs2, s2) \<Rightarrow>
                      (if truthy_id (finish_reason choice)
                       then evs1 @ evs2 @ on_finish s2 (the (finish_reason choice)) (chunk_usage chunk)
                       else evs1 @ evs2 @ translate_lines s2 ls))))"

definition stream_anthropic_sse :: "chunk_line list \<Rightarrow> anthropic_event list" where
  "stream_anthropic_sse ls = MessageStart # translate_lines initial_state ls"

section \<open>\<open>api_client.py\<close>: \<open>_decode_payload_bytes\<close>\<close>

type_synonym bytes = "nat list"

text \<open>\<open>re.sub(r"\s+", "", data_str)\<close>\<close>

definition strip_whitespace :: "ustr \<Rightarrow> ustr" where
  "strip_whitespace s = filter (\<lambda>c. \<not> py_isspace c) s"

definition is_hex_digit :: "nat \<Rightarrow> bool" where
  "is_hex_digit c = ((48 \<le> c \<and> c \<le> 57) \<or> (65 \<le> c \<and> c \<le> 70) \<or> (97 \<le> c \<and> c \<le> 102))"

definition hex_value :: "nat \<Rightarrow> nat" where
  "hex_value c = (if c \<le> 57 then c - 48 else if c \<le> 70 then c - 55 else c - 87)"

text \<open>
  \<open>bytes.fromhex\<close> on a string without whitespace: two hexadecimal digits give one
  byte, and an odd digit or another character raises \<open>ValueError\<close>.
\<close>

fun bytes_fromhex :: "ustr \<Rightarrow> bytes option" where
  "bytes_fromhex [] = Some []"
| "bytes_fromhex [a] = None"
| "bytes_fromhex (a # b # cs) =
     (if is_hex_digit a \<and> is_hex_digit b
      then map_option ((#) (16 * hex_value a + hex_value b)) (bytes_fromhex cs)
      else None)"

text \<open>
  The two base64 decoders of the Python library are parameters of the model; \<open>None\<close>
  is a raised exception.
\<close>

definition decode_payload_bytes ::
  "(ustr \<Rightarrow> bytes option) \<Rightarrow> (ustr \<Rightarrow> bytes option) \<Rightarrow> ustr \<Rightarrow> bytes option" where
  "decode_payload_bytes urlsafe_b64decode b64decode data_str =
     (let s = strip_whitespace data_str
      in if s = [] then None
         else
           (case (if list_all is_hex_digit s then bytes_fromhex s else None) of
              Some raw \<Rightarrow> Some raw
            | None \<Rightarrow>
                (let pad = replicate ((4 - length s mod 4) mod 4) 61
                 in case urlsafe_b64decode (s @ pad) of
                      Some raw \<Rightarrow> Some raw
                    | None \<Rightarrow> b64decode (s @ pad))))"

subsection \<open>The library decoders\<close>

text \<open>
  \<open>binascii.a2b_base64\<close> in its default, lenient mode, as \<open>base64.b64decode\<close>
  calls it: characters outside the alphabet are skipped, decoding stops at complete
  padding, and an unfinished group of characters is an error.
\<close>

definition b64_value :: "nat \<Rightarrow> nat option" where
  "b64_value c =
     (if 65 \<le> c \<and> c \<le> 90 then Some (c - 65)
      else if 97 \<le> c \<and> c \<le> 122 then Some (c - 71)
      else if 48 \<le> c \<and> c \<le> 57 then Some (c + 4)
      else if c = 43 then Some 62
      else if c = 47 then Some 63
      else None)"

fun a2b_base64 :: "nat list \<Rightarrow> nat \<Rightarrow> nat \<Rightarrow> nat \<Rightarrow> bytes \<Rightarrow> bytes option" where
  "a2b_base64 [] quad_pos leftchar pads out = (if quad_pos \<noteq> 0 then None else Some out)"
| "a2b_base64 (c # cs) quad_pos leftchar pads out =
     (if c = 61 then
        (if quad_pos \<ge> 2 \<and> quad_pos + (pads + 1) \<ge> 4 then Some out
         else a2b_base64 cs quad_pos leftchar (if quad_pos \<ge> 2 then pads + 1 else pads) out)
      else
        (case b64_value c of
           None \<Rightarrow> a2b_base64 cs quad_pos leftchar pads out
         | Some v \<Rightarrow>
             (if quad_pos = 0 then a2b_base64 cs 1 v 0 out
              else if quad_pos = 1
              then a2b_base64 cs 2 (v mod 16) 0 (out @ [leftchar * 4 + v div 16])
              else if quad_pos = 2
              then a2b_base64 cs 3 (v mod 4) 0 (out @ [leftchar * 16 + v div 4])
              else a2b_base64 cs 0 0 0 (out @ [leftchar * 64 + v]))))"

text \<open>A string with a character beyond ASCII is refused before decoding.\<close>

definition b64decode :: "ustr \<Rightarrow> bytes option" where
  "b64decode s = (if list_all (\<lambda>c. c < 128) s then a2b_base64 s 0 0 0 [] else None)"

definition urlsafe_b64decode :: "ustr \<Rightarrow> bytes option" where
  "urlsafe_b64decode s =
     b64decode (map (\<lambda>c. if c = 45 then 43 else if c = 95 then 47 else c) s)"

section \<open>\<open>warp_token_pool.py\<close>\<close>

datatype token_status = VALID | EXPIRED | RATE_LIMITED | UNKNOWN










subsection \<open>Requests\<close>







section \<open>Predicates and sample data for the statements\<close>


text \<open>An assistant message that only calls one tool, with the given call id.\<close>

definition call_only :: "string option \<Rightarrow> chat_message" where
  "call_only i = ChatMessage_tc ''assistant'' (CStr [])
     (Some [\<lparr>tc_id = i, tc_type = Some ''function'', tc_function = Some (''Bash'', ascii ''{}'')\<rparr>])"





text \<open>Tool-call chunks, and those among them that come from an MCP tool call.\<close>

fun is_mcp_call :: "openai_out \<Rightarrow> bool" where
  "is_mcp_call (ToolCallOut i n (JsonArgs a)) = True"
| "is_mcp_call _ = False"

fun is_tool_call :: "openai_out \<Rightarrow> bool" where
  "is_tool_call (ToolCallOut i n a) = True"
| "is_tool_call _ = False"

definition flag_tracks :: "process_state \<Rightarrow> openai_out list \<Rightarrow> process_state \<Rightarrow> bool" where
  "flag_tracks st outs st' \<longleftrightarrow>
     tool_calls_emitted st' = (tool_calls_emitted st \<or> list_ex is_mcp_call outs)"

text \<open>The chunks of an event before its terminating chunk, and the state they leave.\<close>

definition event_body :: "process_state \<Rightarrow> event_data \<Rightarrow> openai_out list \<times> process_state" where
  "event_body st ev =
     (case process_actions st (case client_actions ev of Some as \<Rightarrow> as | None \<Rightarrow> []) of
        (outs1, st1) \<Rightarrow>
          (case (case update_task_description ev of
                   Some d \<Rightarrow> emit_text st1 (context_reset_notice d)
                 | None \<Rightarrow> ([], st1)) of
             (outs2, st2) \<Rightarrow> (outs1 @ outs2, st2)))"

definition window_of :: "string \<Rightarrow> nat" where
  "window_of model_id =
     (if contains (map lower model_id) ''claude-3'' \<or> contains (map lower model_id) ''claude-4''
      then 200000 else 100000)"

definition test_env :: env where
  "test_env = \<lparr>count_tokens = (\<lambda>t m. length t),
               int_of_product = (\<lambda>r w. \<lfloor>r * of_nat w\<rfloor>),
               tool_name_in = (\<lambda>msg. None)\<rparr>"

definition finished_with :: "window_info \<Rightarrow> event_data" where
  "finished_with info =
     \<lparr>client_actions = None, update_task_description = None,
      finished = Some \<lparr>internal_error = None, llm_unavailable = False,
                        context_window_info = info\<rparr>\<rparr>"

text \<open>Sample chunks of the OpenAI stream, a pool after start-up, a clock that never expires a token.\<close>

definition tool_chunk :: "string \<Rightarrow> string \<Rightarrow> ustr \<Rightarrow> chunk_line" where
  "tool_chunk tid tool_name args =
     DataChunk \<lparr>choices = [\<lparr>delta_role = None, delta_content = None,
        delta_tool_calls = [\<lparr>tcd_id = Some tid, tcd_name = Some tool_name, tcd_arguments = Some args\<rparr>],
        finish_reason = None\<rparr>], chunk_usage = None\<rparr>"

definition finish_chunk :: "string \<Rightarrow> chunk_line" where
  "finish_chunk reason =
     DataChunk \<lparr>choices = [\<lparr>delta_role = None, delta_content = None, delta_tool_calls = [],
        finish_reason = Some reason\<rparr>], chunk_usage = Some (7, 1)\<rparr>"



section \<open>Properties\<close>

section \<open>An orphan tool result empties the history\<close>

lemma reorder_single_tool:
  assumes "role m = ''tool''"
  shows "reorder_messages_for_anthropic [m] = [m]"
  using assms
  by (auto simp: reorder_messages_for_anthropic_def expand_def expand_message_def
      assistant_tc_ids_def Let_def split: option.splits)

lemma clean_single_tool:
  assumes "role m = ''tool''"
  shows "clean_incomplete_tool_calls [m] = []"
  using assms by (simp add: clean_incomplete_tool_calls_def)

text \<open>
  Claim C10. A request whose only message is a tool-role message passes the check for an
  empty message list, but no assistant tool call precedes the message: the first pass
  keeps it in place, the second pass drops it as an orphan, the normalized history is
  empty, and \<open>attach_user_and_tools_to_inputs\<close> fails its assertion instead of
  building a packet. The request is not answered with HTTP 400.
\<close>

theorem orphan_tool_message_fails_assertion:
  assumes "role m = ''tool''"
  shows "[m] \<noteq> [] \<and> normalize [m] = []
         \<and> build_packet [m] model = Some (Inl AssertionError)"
  using assms
  by (simp add: normalize_def build_packet_def reorder_single_tool clean_single_tool
      attach_user_and_tools_to_inputs_def)

theorem orphan_tool_message_fails_assertion_witness:
  "role (ChatMessage_tool ''tool'' (CStr (ascii ''done'')) (Some ''call_1'')) = ''tool''
   \<and> normalize [ChatMessage_tool ''tool'' (CStr (ascii ''done'')) (Some ''call_1'')] = []
   \<and> build_packet [ChatMessage_tool ''tool'' (CStr (ascii ''done'')) (Some ''call_1'')] None
       = Some (Inl AssertionError)"
  using orphan_tool_message_fails_assertion
          [of "ChatMessage_tool ''tool'' (CStr (ascii ''done'')) (Some ''call_1'')" None]
  by (simp add: ChatMessage_tool_def)

section \<open>Chunking of tool results\<close>



















lemmas msg_defs = call_only_def ChatMessage_def ChatMessage_tc_def ChatMessage_tool_def
lemmas truthy_defs = truthy_id_def tcs_of_def has_tool_calls_def tc_nonempty_def
  content_truthy_def content_blank_def tc_ids_def
lemmas clean_defs = clean_incomplete_tool_calls_def settle_assistant_def filled_msg_def

section \<open>The inputs of the request packet\<close>





section \<open>Blank tool results\<close>

text \<open>
  Claim C2. The claim is what the function announces in its log (every blank tool result
  is filled) and what its two other paths do, but a tool result collected after an
  assistant message whose id is not among that message's tool calls is appended as it
  is. When no tool call of the message lacks its result, nothing filters it out again:
  the blank result of \<open>t2\<close> is part of the output.
\<close>

theorem unmatched_blank_tool_result_kept:
  "clean_incomplete_tool_calls
     [call_only (Some ''t1''),
      ChatMessage_tool ''tool'' (CStr (ascii ''ok'')) (Some ''t1''),
      ChatMessage_tool ''tool'' (CStr []) (Some ''t2'')]
   = [call_only (Some ''t1''),
      ChatMessage_tool ''tool'' (CStr (ascii ''ok'')) (Some ''t1''),
      ChatMessage_tool ''tool'' (CStr []) (Some ''t2'')]"
  by (simp add: msg_defs truthy_defs clean_defs ascii_def py_isspace_def)

section \<open>Normalizing twice\<close>






























section \<open>The recovery hint\<close>

text \<open>
  Claim C3, as stated, fails: the text appended to the query is not the English sentence
  of the claim. For the tool \<open>read_files\<close> and the query \<open>hi\<close> the packet of the
  retry differs from the one the claim describes.
\<close>

theorem recovery_hint_is_not_the_english_literal:
  "on_internal_error 0 (packet_template\<lparr>inputs := [UserQuery (ascii ''hi'') []]\<rparr>)
       (Some (ascii ''read_files''))
   \<noteq> Retry (packet_template\<lparr>inputs := [UserQuery (ascii ''hi'' @
          [10, 10] @ ascii ''[system auto-recovery] Please continue the task but do not u'' @
          ascii ''se the '' @ ascii ''read_files'' @
          ascii '' tool. Available tools: Read, Write, Edit, Bash, Glob, Grep,'' @
          ascii '' and other MCP tools.'') []]\<rparr>) 1"
  by (simp add: on_internal_error_def inject_recovery_prompt_def recovery_prompt_def
      recovery_marker_def packet_template_def ascii_def)

text \<open>
  Claim C3, amended. At the first recoverable internal error that names a tool
  (\<open>retry_count = 0\<close>), when the last input of the packet is a \<open>user_query\<close>, the
  driver retries with count 1 and a packet that differs only in that query: the query
  is unchanged if it already contains the marker, written in Chinese in square brackets
  ("system auto-recovery"); otherwise two newlines, the marker and the Chinese sentence
  "please continue the previous task, but do not use the tool \<open>tool_name\<close>; the
  available tools include Read, Write, Edit, Bash, Glob, Grep and other MCP tools" are
  appended to it.
\<close>

theorem recovery_hint_appended_once:
  assumes "tool_name \<noteq> []" and "inputs p = ins @ [UserQuery q pt]"
  shows "on_internal_error 0 p (Some tool_name) =
           Retry (p\<lparr>inputs := ins @ [UserQuery
              (if contains q (ascii ''['' @ [31995, 32479, 33258, 21160, 24674, 22797] @ ascii '']'') then q
               else q @
          [10, 10] @ ascii ''['' @ [31995, 32479, 33258, 21160, 24674, 22797] @ ascii ''] '' @
          [35831, 32487, 32493, 20043, 21069, 30340, 20219, 21153, 65292, 20294, 19981, 35201, 20351, 29992] @
          ascii '' '' @ tool_name @
          ascii '' '' @
          [24037, 20855, 12290, 21487, 29992, 30340, 24037, 20855, 21253, 25324, 65306] @
          ascii ''Read'' @ [12289] @ ascii ''Write'' @ [12289] @ ascii ''Edit'' @ [12289] @
          ascii ''Bash'' @ [12289] @ ascii ''Glob'' @ [12289] @ ascii ''Grep '' @ [31561] @
          ascii '' MCP '' @ [24037, 20855, 12290]) pt]\<rparr>) 1"
  using assms
  by (simp add: on_internal_error_def inject_recovery_prompt_def recovery_prompt_def
      recovery_marker_def)

theorem recovery_hint_appended_once_witness:
  "ascii ''read_files'' \<noteq> []
   \<and> inputs (packet_template\<lparr>inputs := [UserQuery (ascii ''hi'') []]\<rparr>) = [] @ [UserQuery (ascii ''hi'') []]
   \<and> (\<exists>q. on_internal_error 0 (packet_template\<lparr>inputs := [UserQuery (ascii ''hi'') []]\<rparr>)
               (Some (ascii ''read_files''))
            = Retry (packet_template\<lparr>inputs := [UserQuery (ascii ''hi'') []]\<rparr>
                       \<lparr>inputs := [] @ [UserQuery q []]\<rparr>) 1)"
proof -
  have a: "ascii ''read_files'' \<noteq> []" by (simp add: ascii_def)
  have b: "inputs (packet_template\<lparr>inputs := [UserQuery (ascii ''hi'') []]\<rparr>)
           = [] @ [UserQuery (ascii ''hi'') []]"
    by simp
  from recovery_hint_appended_once [OF a b] a b show ?thesis by blast
qed

section \<open>Blocks of the Anthropic stream\<close>

text \<open>
  Claim C4. Two tool calls in succession: when the second tool block is opened the index
  moves from 0 to 1, but no \<open>content_block_stop\<close> is written for block 0, as is done
  for an open text block; at the end only block 1 is stopped. The block started at
  index 0 is never stopped before \<open>message_delta\<close>.
\<close>

theorem second_tool_block_leaves_first_open:
  "stream_anthropic_sse
     [tool_chunk ''c1'' ''Read'' (ascii ''{}''), tool_chunk ''c2'' ''Bash'' (ascii ''{}''),
      finish_chunk ''tool_calls'', DoneLine]
   = [MessageStart,
      ContentBlockStart 0 (ToolUse ''c1'' ''Read''), ContentBlockDelta 0 (InputJsonDelta (ascii ''{}'')),
      ContentBlockStart 1 (ToolUse ''c2'' ''Bash''), ContentBlockDelta 1 (InputJsonDelta (ascii ''{}'')),
      ContentBlockStop 1,
      MessageDelta ''tool_use'' 7 1, MessageStop]"
  by (simp add: stream_anthropic_sse_def tool_chunk_def finish_chunk_def initial_state_def
      on_tool_call_def open_tool_block_def on_finish_def stop_reason_mapping_def
      truthy_id_def truthy_text_def ascii_def Let_def)

section \<open>The terminating chunk\<close>

lemma is_mcp_call_is_tool_call: "is_mcp_call x \<Longrightarrow> is_tool_call x"
  by (cases x) auto

lemma mcp_call_among_tool_calls: "list_ex is_mcp_call xs \<Longrightarrow> list_ex is_tool_call xs"
  using is_mcp_call_is_tool_call by (auto simp: list_ex_iff)

lemma emit_text_flag:
  "emit_text st t = (outs, st') \<Longrightarrow>
   tool_calls_emitted st' = tool_calls_emitted st \<and> \<not> list_ex is_tool_call outs"
  by (auto simp: emit_text_def split: if_splits)

lemma emit_texts_flag:
  "emit_texts st ts = (outs, st') \<Longrightarrow>
   tool_calls_emitted st' = tool_calls_emitted st \<and> \<not> list_ex is_tool_call outs"
proof (induction ts arbitrary: st outs st')
  case Nil
  then show ?case by simp
next
  case (Cons t ts)
  obtain o1 s1 where a: "emit_text st t = (o1, s1)" by (cases "emit_text st t")
  obtain o2 s2 where b: "emit_texts s1 ts = (o2, s2)" by (cases "emit_texts s1 ts")
  from Cons.prems a b have "outs = o1 @ o2" "st' = s2" by auto
  with emit_text_flag [OF a] Cons.IH [OF b] show ?case by simp
qed

lemma flag_tracks_text:
  assumes "tool_calls_emitted st' = tool_calls_emitted st" and "\<not> list_ex is_tool_call outs"
  shows "flag_tracks st outs st'"
  using assms is_mcp_call_is_tool_call by (auto simp: flag_tracks_def list_ex_iff)

lemma flag_tracks_Nil: "flag_tracks st [] st"
  by (simp add: flag_tracks_def)

lemma flag_tracks_trans:
  assumes "flag_tracks st o1 s1" and "flag_tracks s1 o2 s2"
  shows "flag_tracks st (o1 @ o2) s2"
  using assms by (auto simp: flag_tracks_def)

lemma process_message_flag:
  "process_message st m = (outs, st') \<Longrightarrow> flag_tracks st outs st'"
proof (cases m)
  case (AgentOutputMsg t)
  assume "process_message st m = (outs, st')"
  with AgentOutputMsg have "emit_text st t = (outs, st')" by simp
  from emit_text_flag [OF this] show ?thesis by (simp add: flag_tracks_text)
qed (auto simp: flag_tracks_def split: if_splits option.splits)

lemma process_messages_flag:
  "process_messages st ms = (outs, st') \<Longrightarrow> flag_tracks st outs st'"
proof (induction ms arbitrary: st outs st')
  case Nil
  then show ?case by (simp add: flag_tracks_Nil)
next
  case (Cons m ms)
  obtain o1 s1 where a: "process_message st m = (o1, s1)" by (cases "process_message st m")
  obtain o2 s2 where b: "process_messages s1 ms = (o2, s2)" by (cases "process_messages s1 ms")
  from Cons.prems a b have "outs = o1 @ o2" "st' = s2" by auto
  with flag_tracks_trans [OF process_message_flag [OF a] Cons.IH [OF b]] show ?case by simp
qed

lemma process_action_flag:
  "process_action st a = (outs, st') \<Longrightarrow> flag_tracks st outs st'"
proof (cases a)
  case (AddMessagesToTask ms)
  assume "process_action st a = (outs, st')"
  with AddMessagesToTask show ?thesis by (simp add: process_messages_flag)
next
  case (CreateTask ts)
  assume "process_action st a = (outs, st')"
  with CreateTask have "emit_texts st ts = (outs, st')" by simp
  from emit_texts_flag [OF this] show ?thesis by (simp add: flag_tracks_text)
next
  case OtherAction
  assume "process_action st a = (outs, st')"
  with OtherAction show ?thesis by (auto simp: flag_tracks_Nil)
next
  case (AppendToMessageContent t)
  assume "process_action st a = (outs, st')"
  with AppendToMessageContent have "emit_text st t = (outs, st')" by simp
  from emit_text_flag [OF this] show ?thesis by (simp add: flag_tracks_text)
next
  case (UpdateTaskMessage t)
  assume "process_action st a = (outs, st')"
  with UpdateTaskMessage have "emit_text st t = (outs, st')" by simp
  from emit_text_flag [OF this] show ?thesis by (simp add: flag_tracks_text)
next
  case (UpdateTaskSummary t)
  assume "process_action st a = (outs, st')"
  with UpdateTaskSummary have "emit_text st t = (outs, st')" by simp
  from emit_text_flag [OF this] show ?thesis by (simp add: flag_tracks_text)
qed

lemma process_actions_flag:
  "process_actions st as = (outs, st') \<Longrightarrow> flag_tracks st outs st'"
proof (induction as arbitrary: st outs st')
  case Nil
  then show ?case by (simp add: flag_tracks_Nil)
next
  case (Cons a as)
  obtain o1 s1 where a: "process_action st a = (o1, s1)" by (cases "process_action st a")
  obtain o2 s2 where b: "process_actions s1 as = (o2, s2)" by (cases "process_actions s1 as")
  from Cons.prems a b have "outs = o1 @ o2" "st' = s2" by auto
  with flag_tracks_trans [OF process_action_flag [OF a] Cons.IH [OF b]] show ?case by simp
qed

lemma event_body_flag:
  assumes "event_body st ev = (outs, st')"
  shows "flag_tracks st outs st'"
proof -
  obtain o1 s1 where a:
    "process_actions st (case client_actions ev of Some as \<Rightarrow> as | None \<Rightarrow> []) = (o1, s1)"
    by (cases "process_actions st (case client_actions ev of Some as \<Rightarrow> as | None \<Rightarrow> [])")
  obtain o2 s2 where b:
    "(case update_task_description ev of
        Some d \<Rightarrow> emit_text s1 (context_reset_notice d) | None \<Rightarrow> ([], s1)) = (o2, s2)"
    by (cases "(case update_task_description ev of
        Some d \<Rightarrow> emit_text s1 (context_reset_notice d) | None \<Rightarrow> ([], s1))")
  have "flag_tracks s1 o2 s2"
  proof (cases "update_task_description ev")
    case None
    with b show ?thesis by (auto simp: flag_tracks_Nil)
  next
    case (Some d)
    with b have "emit_text s1 (context_reset_notice d) = (o2, s2)" by simp
    from emit_text_flag [OF this] show ?thesis by (simp add: flag_tracks_text)
  qed
  from flag_tracks_trans [OF process_actions_flag [OF a] this] assms a b
  show ?thesis by (simp add: event_body_def)
qed

lemma process_event_body:
  "process_event e model_id input_tokens st ev =
     (case event_body st ev of
        (outs, st2) \<Rightarrow>
          (case finished ev of
             None \<Rightarrow> (outs, st2, None)
           | Some f \<Rightarrow>
               (case internal_error f of
                  Some msg \<Rightarrow> (outs, st2, Some (InternalErrorRecoverable (tool_name_in e msg) msg))
                | None \<Rightarrow>
                    if llm_unavailable f then (outs, st2, Some LLMUnavailableRecoverable)
                    else (outs @ [done_chunk e model_id input_tokens st2 f], st2, None))))"
  by (simp add: process_event_def event_body_def split: prod.splits option.splits)

lemma process_frames_append:
  assumes "process_frames e model_id input_tokens st pre = (outs0, st0, None)"
    and "DoneFrame \<notin> set pre"
  shows "process_frames e model_id input_tokens st (pre @ fs) =
           (case process_frames e model_id input_tokens st0 fs of
              (outs', st', r) \<Rightarrow> (outs0 @ outs', st', r))"
  using assms
proof (induction pre arbitrary: st outs0)
  case Nil
  then show ?case by (simp split: prod.splits)
next
  case (Cons fr pre)
  show ?case
  proof (cases fr)
    case DoneFrame
    with Cons.prems show ?thesis by simp
  next
    case BadFrame
    with Cons show ?thesis by simp
  next
    case (Frame ev)
    obtain o1 s1 r1 where a: "process_event e model_id input_tokens st ev = (o1, s1, r1)"
      by (cases "process_event e model_id input_tokens st ev")
    obtain o2 s2 r2 where b: "process_frames e model_id input_tokens s1 pre = (o2, s2, r2)"
      by (cases "process_frames e model_id input_tokens s1 pre")
    from Cons.prems(1) Frame a b have r1: "r1 = None" and eq: "outs0 = o1 @ o2" "s2 = st0" "r2 = None"
      by (auto split: option.splits)
    from Cons.prems(2) have "DoneFrame \<notin> set pre" by simp
    from Cons.IH [OF b [unfolded eq(2,3)] this]
    show ?thesis using Frame a r1 eq by (simp split: prod.splits)
  qed
qed

lemma process_event_flag:
  assumes "process_event e model_id input_tokens st ev = (outs, st', r)"
  shows "flag_tracks st outs st'"
proof -
  obtain o1 s1 where b: "event_body st ev = (o1, s1)" by (cases "event_body st ev")
  from event_body_flag [OF b] have f: "flag_tracks st o1 s1" .
  then have f': "flag_tracks st (o1 @ [done_chunk e model_id input_tokens s1 x]) s1" for x
    by (simp add: flag_tracks_def done_chunk_def)
  from assms b have "st' = s1 \<and> (outs = o1 \<or> (\<exists>x. outs = o1 @ [done_chunk e model_id input_tokens s1 x]))"
    by (auto simp: process_event_body split: option.splits if_splits)
  with f f' show ?thesis by auto
qed

lemma process_frames_flag:
  "process_frames e model_id input_tokens st fs = (outs, st', r) \<Longrightarrow> flag_tracks st outs st'"
proof (induction fs arbitrary: st outs st' r)
  case Nil
  then show ?case by (simp add: flag_tracks_Nil)
next
  case (Cons fr fs)
  show ?case
  proof (cases fr)
    case DoneFrame
    with Cons.prems show ?thesis by (simp add: flag_tracks_Nil)
  next
    case BadFrame
    with Cons show ?thesis by simp
  next
    case (Frame ev)
    obtain o1 s1 r1 where a: "process_event e model_id input_tokens st ev = (o1, s1, r1)"
      by (cases "process_event e model_id input_tokens st ev")
    note fa = process_event_flag [OF a]
    show ?thesis
    proof (cases r1)
      case (Some x)
      with Cons.prems Frame a fa show ?thesis by simp
    next
      case None
      obtain o2 s2 r2 where b: "process_frames e model_id input_tokens s1 fs = (o2, s2, r2)"
        by (cases "process_frames e model_id input_tokens s1 fs")
      from Cons.prems Frame a b None have "outs = o1 @ o2" "st' = s2" by auto
      with flag_tracks_trans [OF fa Cons.IH [OF b]] show ?thesis by simp
    qed
  qed
qed

lemma estimated_output_tokens_pos: "1 \<le> estimated_output_tokens e model_id t"
  by (simp add: estimated_output_tokens_def Let_def)

lemma get_model_context_window_eq: "get_model_context_window m = window_of m"
  by (simp add: get_model_context_window_def window_of_def Let_def)

text \<open>
  Claim C6, amended. Let the frames before a clean \<open>finished\<close> event be processed
  without an error and without the \<open>[DONE]\<close> payload. Then the translator writes,
  after the chunks of these frames and of the event itself, a terminating chunk whose
  finish reason is \<open>tool_calls\<close> if an MCP tool-call chunk was written before it and
  \<open>stop\<close> if no tool-call chunk was written; whose prompt tokens are, for a
  \<open>context_window_info\<close> that is a number above 0, the integer part of its product
  with the context window (200000 if the lower-cased model name contains
  \<open>claude-3\<close> or \<open>claude-4\<close>, else 100000), and, when the info is absent or a
  number not above 0, the precomputed estimate if that is positive and 1000 otherwise;
  whose completion tokens are at least 1 and whose total is the sum. The loop goes on
  with the later frames, and unless one of them raises an error the last line written
  is \<open>data: [DONE]\<close>.
\<close>

theorem clean_finished_event:
  assumes pre: "process_frames e model_id input_tokens initial_process_state pre = (outs0, st0, None)"
    and nodone: "DoneFrame \<notin> set pre"
    and fin: "finished ev = Some f" "internal_error f = None" "\<not> llm_unavailable f"
  shows "\<exists>outs1 reason prompt completion rest r.
     process_sse_response_lines e model_id input_tokens (pre @ Frame ev # post)
        = (outs0 @ outs1 @ FinishOut reason prompt completion (prompt + completion) # rest, r)
     \<and> (list_ex is_mcp_call (outs0 @ outs1) \<longrightarrow> reason = ''tool_calls'')
     \<and> (\<not> list_ex is_tool_call (outs0 @ outs1) \<longrightarrow> reason = ''stop'')
     \<and> (\<forall>x. context_window_info f = Ratio x \<and> 0 < x \<longrightarrow>
            prompt = int_of_product e x
              (if contains (map lower model_id) ''claude-3''
                  \<or> contains (map lower model_id) ''claude-4'' then 200000 else 100000))
     \<and> (context_window_info f = NoInfo \<or> (\<exists>x. context_window_info f = Ratio x \<and> x \<le> 0) \<longrightarrow>
            prompt = (if input_tokens > 0 then input_tokens else 1000))
     \<and> 1 \<le> completion
     \<and> (r = None \<longrightarrow> rest \<noteq> [] \<and> last rest = DoneOut)"
proof -
  obtain outs1 st1 where body: "event_body st0 ev = (outs1, st1)" by (cases "event_body st0 ev")
  obtain outs2 st2 r where post: "process_frames e model_id input_tokens st1 post = (outs2, st2, r)"
    by (cases "process_frames e model_id input_tokens st1 post")
  define reason where "reason = (if tool_calls_emitted st1 then ''tool_calls'' else ''stop'')"
  define prompt where "prompt = estimated_input_tokens e model_id input_tokens (context_window_info f)"
  define completion where "completion = estimated_output_tokens e model_id (output_text st1)"
  define rest where "rest = (case r of None \<Rightarrow> outs2 @ [DoneOut] | Some x \<Rightarrow> outs2)"
  have ev: "process_event e model_id input_tokens st0 ev
            = (outs1 @ [FinishOut reason prompt completion (prompt + completion)], st1, None)"
    using body fin
    by (simp add: process_event_body done_chunk_def reason_def prompt_def completion_def)
  have run: "process_sse_response_lines e model_id input_tokens (pre @ Frame ev # post)
        = (outs0 @ outs1 @ FinishOut reason prompt completion (prompt + completion) # rest, r)"
    using ev post
    by (simp add: process_sse_response_lines_def process_frames_append [OF pre nodone] rest_def
        split: option.splits)
  have tr: "flag_tracks initial_process_state (outs0 @ outs1) st1"
    using flag_tracks_trans [OF process_frames_flag [OF pre] event_body_flag [OF body]] .
  have r1: "list_ex is_mcp_call (outs0 @ outs1) \<longrightarrow> reason = ''tool_calls''"
    using tr by (simp add: flag_tracks_def reason_def initial_process_state_def)
  have r2: "\<not> list_ex is_tool_call (outs0 @ outs1) \<longrightarrow> reason = ''stop''"
    using tr mcp_call_among_tool_calls [of "outs0 @ outs1"]
    by (auto simp: flag_tracks_def reason_def initial_process_state_def)
  have p1: "\<forall>x. context_window_info f = Ratio x \<and> 0 < x \<longrightarrow>
            prompt = int_of_product e x
              (if contains (map lower model_id) ''claude-3''
                  \<or> contains (map lower model_id) ''claude-4'' then 200000 else 100000)"
    by (auto simp: prompt_def estimated_input_tokens_def context_usage_def
        get_model_context_window_eq window_of_def)
  have p2: "context_window_info f = NoInfo \<or> (\<exists>x. context_window_info f = Ratio x \<and> x \<le> 0) \<longrightarrow>
            prompt = (if input_tokens > 0 then input_tokens else 1000)"
    by (auto simp: prompt_def estimated_input_tokens_def context_usage_def
        fallback_input_tokens_def)
  have c: "1 \<le> completion" by (simp add: completion_def estimated_output_tokens_pos)
  have d: "r = None \<longrightarrow> rest \<noteq> [] \<and> last rest = DoneOut" by (simp add: rest_def)
  from run r1 r2 p1 p2 c d show ?thesis by blast
qed

text \<open>
  Claim C6, as stated, fails. A ratio of 0 lies in the range from 0 to 1, and its product
  with any context window is 0, but the translator then reports the precomputed
  estimate (here 42) as the prompt tokens.
\<close>

theorem zero_ratio_uses_estimate:
  "process_sse_response_lines test_env ''claude-4-sonnet'' 42 [Frame (finished_with (Ratio 0))]
   = ([FinishOut ''stop'' 42 1 43, DoneOut], None)"
  by (simp add: process_sse_response_lines_def process_event_def finished_with_def
      initial_process_state_def done_chunk_def estimated_input_tokens_def context_usage_def
      fallback_input_tokens_def estimated_output_tokens_def)

theorem clean_finished_event_witness:
  "process_frames test_env ''claude-4-sonnet'' 42 initial_process_state []
     = ([], initial_process_state, None)
   \<and> finished (finished_with (Ratio (1 / 100)))
     = Some \<lparr>internal_error = None, llm_unavailable = False,
              context_window_info = Ratio (1 / 100)\<rparr>
   \<and> (\<exists>reason prompt completion.
         FinishOut reason prompt completion (prompt + completion)
           \<in> set (fst (process_sse_response_lines test_env ''claude-4-sonnet'' 42
                          [Frame (finished_with (Ratio (1 / 100)))]))
         \<and> 1 \<le> completion)"
proof -
  have pre: "process_frames test_env ''claude-4-sonnet'' 42 initial_process_state []
             = ([], initial_process_state, None)"
    by simp
  have nodone: "DoneFrame \<notin> set []" by simp
  have fin: "finished (finished_with (Ratio (1 / 100)))
             = Some \<lparr>internal_error = None, llm_unavailable = False,
                      context_window_info = Ratio (1 / 100)\<rparr>"
    by (simp add: finished_with_def)
  have ie: "internal_error \<lparr>internal_error = None, llm_unavailable = False,
                      context_window_info = Ratio (1 / 100)\<rparr> = None"
    by simp
  have lu: "\<not> llm_unavailable \<lparr>internal_error = None, llm_unavailable = False,
                      context_window_info = Ratio (1 / 100)\<rparr>"
    by simp
  from clean_finished_event [OF pre nodone fin ie lu, of "[]"]
  obtain outs1 reason prompt completion rest r where
    a: "process_sse_response_lines test_env ''claude-4-sonnet'' 42
         ([] @ Frame (finished_with (Ratio (1 / 100))) # [])
        = ([] @ outs1 @ FinishOut reason prompt completion (prompt + completion) # rest, r)"
    and d: "1 \<le> completion"
    by blast
  from a have "FinishOut reason prompt completion (prompt + completion)
           \<in> set (fst (process_sse_response_lines test_env ''claude-4-sonnet'' 42
                          [Frame (finished_with (Ratio (1 / 100)))]))"
    by simp
  with d pre fin show ?thesis by blast
qed

section \<open>Decoding a frame\<close>

lemma bytes_fromhex_even:
  "list_all is_hex_digit s \<Longrightarrow> even (length s) \<Longrightarrow>
   \<exists>raw. bytes_fromhex s = Some raw \<and> length raw = length s div 2
      \<and> (\<forall>i < length raw. raw ! i = 16 * hex_value (s ! (2 * i)) + hex_value (s ! (2 * i + 1)))"
proof (induction s rule: bytes_fromhex.induct)
  case 1
  then show ?case by simp
next
  case (2 a)
  then show ?case by simp
next
  case (3 a b cs)
  then obtain raw where r: "bytes_fromhex cs = Some raw" "length raw = length cs div 2"
    "\<forall>i < length raw. raw ! i = 16 * hex_value (cs ! (2 * i)) + hex_value (cs ! (2 * i + 1))"
    by auto
  have "\<forall>i < length ((16 * hex_value a + hex_value b) # raw).
          ((16 * hex_value a + hex_value b) # raw) ! i
            = 16 * hex_value ((a # b # cs) ! (2 * i)) + hex_value ((a # b # cs) ! (2 * i + 1))"
  proof (intro allI impI)
    fix i assume "i < length ((16 * hex_value a + hex_value b) # raw)"
    then show "((16 * hex_value a + hex_value b) # raw) ! i
            = 16 * hex_value ((a # b # cs) ! (2 * i)) + hex_value ((a # b # cs) ! (2 * i + 1))"
      using r(3) by (cases i) auto
  qed
  with 3 r show ?case by simp
qed

lemma bytes_fromhex_odd: "odd (length s) \<Longrightarrow> bytes_fromhex s = None"
  by (induction s rule: bytes_fromhex.induct) auto

text \<open>
  Claim C8, amended. The buffer is decoded after all whitespace is removed. If nothing is
  left there is no frame. If what is left consists of hexadecimal digits and their
  number is even, the frame is its hexadecimal decoding, one byte for two digits. In
  every other case, also for an odd number of hexadecimal digits, the remainder is
  padded with \<open>=\<close> to a multiple of four characters and decoded as URL-safe base64
  or, if that fails, as standard base64; if both fail there is no frame.
\<close>

theorem decode_payload_bytes_cases:
  "(strip_whitespace buf = [] \<longrightarrow> decode_payload_bytes u d buf = None)
   \<and> (strip_whitespace buf \<noteq> [] \<and> list_all is_hex_digit (strip_whitespace buf)
        \<and> even (length (strip_whitespace buf)) \<longrightarrow>
        (\<exists>raw. decode_payload_bytes u d buf = Some raw
           \<and> length raw = length (strip_whitespace buf) div 2
           \<and> (\<forall>i < length raw.
                 raw ! i = 16 * hex_value (strip_whitespace buf ! (2 * i))
                           + hex_value (strip_whitespace buf ! (2 * i + 1)))))
   \<and> (strip_whitespace buf \<noteq> []
        \<and> \<not> (list_all is_hex_digit (strip_whitespace buf) \<and> even (length (strip_whitespace buf))) \<longrightarrow>
        decode_payload_bytes u d buf =
          (case u (strip_whitespace buf
                     @ replicate ((4 - length (strip_whitespace buf) mod 4) mod 4) 61) of
             Some raw \<Rightarrow> Some raw
           | None \<Rightarrow> d (strip_whitespace buf
                     @ replicate ((4 - length (strip_whitespace buf) mod 4) mod 4) 61)))"
proof (intro conjI impI)
  assume "strip_whitespace buf = []"
  then show "decode_payload_bytes u d buf = None" by (simp add: decode_payload_bytes_def)
next
  assume a: "strip_whitespace buf \<noteq> [] \<and> list_all is_hex_digit (strip_whitespace buf)
        \<and> even (length (strip_whitespace buf))"
  with bytes_fromhex_even [of "strip_whitespace buf"]
  obtain raw where r: "bytes_fromhex (strip_whitespace buf) = Some raw"
    "length raw = length (strip_whitespace buf) div 2"
    "\<forall>i < length raw. raw ! i = 16 * hex_value (strip_whitespace buf ! (2 * i))
                           + hex_value (strip_whitespace buf ! (2 * i + 1))"
    by blast
  from a r(1) have "decode_payload_bytes u d buf = Some raw"
    by (simp add: decode_payload_bytes_def)
  with r(2,3) show "\<exists>raw. decode_payload_bytes u d buf = Some raw
           \<and> length raw = length (strip_whitespace buf) div 2
           \<and> (\<forall>i < length raw.
                 raw ! i = 16 * hex_value (strip_whitespace buf ! (2 * i))
                           + hex_value (strip_whitespace buf ! (2 * i + 1)))"
    by blast
next
  assume a: "strip_whitespace buf \<noteq> []
        \<and> \<not> (list_all is_hex_digit (strip_whitespace buf) \<and> even (length (strip_whitespace buf)))"
  then have "(if list_all is_hex_digit (strip_whitespace buf)
              then bytes_fromhex (strip_whitespace buf) else None) = None"
    using bytes_fromhex_odd by auto
  with a show "decode_payload_bytes u d buf =
          (case u (strip_whitespace buf
                     @ replicate ((4 - length (strip_whitespace buf) mod 4) mod 4) 61) of
             Some raw \<Rightarrow> Some raw
           | None \<Rightarrow> d (strip_whitespace buf
                     @ replicate ((4 - length (strip_whitespace buf) mod 4) mod 4) 61))"
    by (simp add: decode_payload_bytes_def Let_def)
qed

text \<open>
  Claim C8, as stated, fails. The buffer \<open>abc\<close> matches \<open>[0-9a-fA-F]+\<close>, but it is
  not decoded as hexadecimal digits, nor skipped: it is decoded as the base64 text
  \<open>abc=\<close> and yields a frame of two bytes.
\<close>

theorem odd_hex_is_base64_decoded:
  "list_all is_hex_digit (strip_whitespace (ascii ''abc''))
   \<and> decode_payload_bytes urlsafe_b64decode b64decode (ascii ''abc'') = Some [105, 183]"
  by (simp add: decode_payload_bytes_def strip_whitespace_def py_isspace_def is_hex_digit_def
      ascii_def urlsafe_b64decode_def b64decode_def b64_value_def Let_def)

theorem decode_payload_bytes_cases_witness:
  "strip_whitespace (ascii ''0a 1F'') \<noteq> []
   \<and> list_all is_hex_digit (strip_whitespace (ascii ''0a 1F''))
   \<and> even (length (strip_whitespace (ascii ''0a 1F'')))
   \<and> (\<exists>raw. decode_payload_bytes urlsafe_b64decode b64decode (ascii ''0a 1F'') = Some raw
          \<and> length raw = 2)"
proof -
  have s: "strip_whitespace (ascii ''0a 1F'') = ascii ''0a1F''"
    by (simp add: strip_whitespace_def py_isspace_def ascii_def)
  have h: "strip_whitespace (ascii ''0a 1F'') \<noteq> []
     \<and> list_all is_hex_digit (strip_whitespace (ascii ''0a 1F''))
     \<and> even (length (strip_whitespace (ascii ''0a 1F'')))"
    unfolding s by (simp add: ascii_def is_hex_digit_def)
  from decode_payload_bytes_cases [of "ascii ''0a 1F''" urlsafe_b64decode b64decode] h
  obtain raw where "decode_payload_bytes urlsafe_b64decode b64decode (ascii ''0a 1F'') = Some raw"
    "length raw = length (strip_whitespace (ascii ''0a 1F'')) div 2"
    by blast
  moreover have "length (strip_whitespace (ascii ''0a 1F'')) div 2 = 2"
    unfolding s by (simp add: ascii_def)
  ultimately show ?thesis using h by auto
qed

section \<open>The pool after maintenance\<close>









end
